theory Spec2Isabelle
  imports Complex_Main
begin

section \<open>Common types\<close>

text \<open>
  Python's unbounded integers are \<open>int\<close>, its \<open>str\<close> is \<open>string\<close>, a \<open>dict\<close> is a map.
  A \<open>datetime\<close> is an instant and a \<open>timedelta\<close> a duration, both with the resolution
  of one microsecond: they are counted in microseconds, an instant from the epoch.
  \<open>timegm\<close> is \<open>calendar.timegm(t.utctimetuple())\<close>, the whole seconds of an instant,
  which is how the JWT library turns a \<open>datetime\<close> into a timestamp.
\<close>

type_synonym datetime = int

definition timedelta_seconds :: "int \<Rightarrow> int" where
  "timedelta_seconds s = 1000000 * s"

definition timedelta_minutes :: "int \<Rightarrow> int" where
  "timedelta_minutes m = timedelta_seconds (60 * m)"

definition timegm :: "datetime \<Rightarrow> int" where
  "timegm t = t div 1000000"

text \<open>
  \<open>fastapi.HTTPException(status_code, detail, headers)\<close>; a handler that raises it returns
  \<open>Inl\<close> of this record, \<open>headers = []\<close> standing for the default \<open>headers=None\<close>.
\<close>

record http_exception =
  status_code :: nat
  detail :: string
  headers :: "(string \<times> string) list"


section \<open>auth.py\<close>

definition SECRET_KEY :: string where
  "SECRET_KEY = ''my-super-secret-key-12345-for-jwt-tokens''"

definition ALGORITHM :: string where
  "ALGORITHM = ''HS256''"

definition ACCESS_TOKEN_EXPIRE_MINUTES :: int where
  "ACCESS_TOKEN_EXPIRE_MINUTES = 30"

subsection \<open>Credential hasher\<close>

text \<open>
  The parameter \<open>sha256\<close> stands for the library call
  \<open>hashlib.sha256(s.encode()).hexdigest()\<close>: a function from the plaintext to the
  hexadecimal digest. Nothing is assumed about it.
\<close>

definition hash_password :: "(string \<Rightarrow> string) \<Rightarrow> string \<Rightarrow> string" where
  "hash_password sha256 password = sha256 password"

definition verify_password :: "(string \<Rightarrow> string) \<Rightarrow> string \<Rightarrow> string \<Rightarrow> bool" where
  "verify_password sha256 plain_password hashed_password \<longleftrightarrow>
     hash_password sha256 plain_password = hashed_password"

text \<open>Two distinct plaintexts with the same digest.\<close>

definition collision :: "(string \<Rightarrow> string) \<Rightarrow> string \<Rightarrow> string \<Rightarrow> bool" where
  "collision sha256 p1 p2 \<longleftrightarrow> p1 \<noteq> p2 \<and> sha256 p1 = sha256 p2"

subsection \<open>Token codec\<close>

text \<open>
  A claim set is the \<open>dict\<close> handed to and returned by the JWT library; the values that
  occur are integers: the user id, and the expiry, which goes in as a \<open>datetime\<close> and
  comes back as a timestamp in seconds.

  The library is a pair of parameters. \<open>enc claims key alg\<close> is
  \<open>jwt.encode(claims, key, algorithm=alg)\<close>. \<open>dec now token key algs\<close> is
  \<open>jwt.decode(token, key, algorithms=algs)\<close> run when the clock reads \<open>now\<close>; it gives
  \<open>None\<close> where the library raises \<open>JWTError\<close>. Tokens are values of a type \<open>'tok\<close>
  that only the library inspects.
\<close>

type_synonym claims = "string \<rightharpoonup> int"

type_synonym 'tok jwt_encode = "claims \<Rightarrow> string \<Rightarrow> string \<Rightarrow> 'tok"

type_synonym 'tok jwt_decode = "datetime \<Rightarrow> 'tok \<Rightarrow> string \<Rightarrow> string list \<Rightarrow> claims option"

definition create_token :: "'tok jwt_encode \<Rightarrow> datetime \<Rightarrow> claims \<Rightarrow> 'tok" where
  "create_token enc utcnow data =
     (let data_copy = data;
          expires_delta = timedelta_minutes ACCESS_TOKEN_EXPIRE_MINUTES;
          expire = utcnow + expires_delta;
          data_copy = data_copy(''exp'' \<mapsto> expire)
      in enc data_copy SECRET_KEY ALGORITHM)"

definition verify_token :: "'tok jwt_decode \<Rightarrow> datetime \<Rightarrow> 'tok \<Rightarrow> http_exception + claims" where
  "verify_token dec utcnow token =
     (case dec utcnow token SECRET_KEY [ALGORITHM] of
        Some payload \<Rightarrow> Inr payload
      | None \<Rightarrow> Inl \<lparr>status_code = 401, detail = ''Invalid token'',
                      headers = [(''WWW-Authenticate'', ''Bearer'')]\<rparr>)"

section \<open>main.py: rate limiter\<close>





text \<open>
  The contract of the JWT library that the token properties rest on, for the claim sets
  that \<open>login\<close> issues (a user id and an expiry), the key and the algorithm of this
  module. Encoding replaces the expiry by its timestamp. Decoding compares that timestamp
  with the timestamp of the clock: the token decodes to its claim set while the expiry lies
  ahead, and is refused once the expiry lies behind. Nothing is said about the second in
  which the two timestamps are equal.
\<close>

definition jwt_contract :: "'tok jwt_encode \<Rightarrow> 'tok jwt_decode \<Rightarrow> bool" where
  "jwt_contract enc dec \<longleftrightarrow>
     (\<forall>u e now.
        (timegm now < timegm e \<longrightarrow>
           dec now (enc [''user_id'' \<mapsto> u, ''exp'' \<mapsto> e] SECRET_KEY ALGORITHM)
             SECRET_KEY [ALGORITHM] = Some [''user_id'' \<mapsto> u, ''exp'' \<mapsto> timegm e]) \<and>
        (timegm e < timegm now \<longrightarrow>
           dec now (enc [''user_id'' \<mapsto> u, ''exp'' \<mapsto> e] SECRET_KEY ALGORITHM)
             SECRET_KEY [ALGORITHM] = None))"

text \<open>
  An idealised codec, with which the parameters are instantiated at concrete inputs: a
  token is the claim set together with the key and algorithm that signed it, or a string
  that is no token at all. Encoding stores the expiry as a timestamp; decoding refuses a
  malformed token, a token signed with another key or algorithm, and a token whose expiry
  is behind the timestamp of the clock.
\<close>

datatype ideal_token = Signed claims string string | Malformed string

definition ideal_encode :: "ideal_token jwt_encode" where
  "ideal_encode cl key alg =
     Signed (case cl ''exp'' of None \<Rightarrow> cl | Some e \<Rightarrow> cl(''exp'' \<mapsto> timegm e)) key alg"

definition ideal_decode :: "ideal_token jwt_decode" where
  "ideal_decode now token key algs =
     (case token of
        Malformed s \<Rightarrow> None
      | Signed cl k a \<Rightarrow>
          if k = key \<and> a \<in> set algs \<and> (case cl ''exp'' of None \<Rightarrow> True | Some e \<Rightarrow> timegm now \<le> e)
          then Some cl else None)"

section \<open>database/models.py\<close>

text \<open>
  One record per entity class, a field per attribute (the reverse \<open>Set\<close> attributes are
  the ORM's view of the same relation and carry no data of their own). A reference to
  another entity holds that entity. The database is the list of rows of each table, in
  insertion order, with the last id handed out by each \<open>auto=True\<close> primary key.
\<close>

record User =
  User_id :: int
  User_email :: string
  User_hashed_password :: string
  User_created_at :: datetime

record Author =
  Author_id :: int
  Author_name :: string
  Author_bio :: "string option"

record Book =
  Book_id :: int
  Book_title :: string
  Book_description :: "string option"
  Book_year :: "int option"
  Book_author :: Author
  Book_owner :: User

record Comment =
  Comment_id :: int
  Comment_text :: string
  Comment_created_at :: datetime
  Comment_user :: User
  Comment_book :: Book

record Note =
  Note_id :: int
  Note_text :: string
  Note_created_at :: datetime
  Note_user :: User
  Note_book :: Book

record File =
  File_id :: int
  File_filename :: string
  File_file_path :: string
  File_uploaded_at :: datetime
  File_book :: "Book option"

record database =
  Users :: "User list"
  Authors :: "Author list"
  Books :: "Book list"
  Comments :: "Comment list"
  Notes :: "Note list"
  Files :: "File list"
  User_seq :: int
  Comment_seq :: int
  Note_seq :: int
  File_seq :: int

text \<open>The database as \<open>create_tables=True\<close> leaves it on a new file.\<close>

definition new_database :: database where
  "new_database = \<lparr>Users = [], Authors = [], Books = [], Comments = [], Notes = [], Files = [],
                    User_seq = 0, Comment_seq = 0, Note_seq = 0, File_seq = 0\<rparr>"

section \<open>pydantic_models.py\<close>





section \<open>database/crud.py\<close>



text \<open>
  \<open>get_current_user\<close> passes \<open>payload.get("user_id")\<close>, which is \<open>None\<close> when the key is
  absent; no row has the id \<open>None\<close>.
\<close>

definition get_user_by_id :: "database \<Rightarrow> int option \<Rightarrow> User option" where
  "get_user_by_id db user_id = find (\<lambda>u. Some (User_id u) = user_id) (Users db)"






section \<open>main.py: access gate and handlers\<close>

text \<open>
  A handler returns \<open>Inl\<close> of the \<open>HTTPException\<close> it raises or \<open>Inr\<close> of the value it
  returns; a handler that writes also returns the database. \<open>get_current_user\<close> receives
  the bearer credential that the framework's \<open>HTTPBearer\<close> dependency has extracted from
  the request.
\<close>

definition get_current_user ::
  "'tok jwt_decode \<Rightarrow> datetime \<Rightarrow> database \<Rightarrow> 'tok \<Rightarrow> http_exception + User" where
  "get_current_user dec utcnow db token =
     (case verify_token dec utcnow token of
        Inl e \<Rightarrow> Inl e
      | Inr payload \<Rightarrow>
          (case get_user_by_id db (payload ''user_id'') of
             None \<Rightarrow> Inl \<lparr>status_code = 401, detail = ''Invalid user'', headers = []\<rparr>
           | Some user \<Rightarrow> Inr user))"




text \<open>The dictionaries that the handlers build by hand.\<close>

record user_dict =
  ud_id :: int
  ud_email :: string
  ud_created_at :: datetime




definition user_to_dict :: "User \<Rightarrow> user_dict" where
  "user_to_dict user =
     \<lparr>ud_id = User_id user, ud_email = User_email user, ud_created_at = User_created_at user\<rparr>"





definition get_all_users :: "database \<Rightarrow> User \<Rightarrow> http_exception + user_dict list" where
  "get_all_users db current_user =
     (if User_id current_user \<noteq> 1 then
        Inl \<lparr>status_code = 403, detail = ''Admin access required'', headers = []\<rparr>
      else Inr (map user_to_dict (Users db)))"

text \<open>
  \<open>books_per_user\<close> is the exact quotient; Python's \<open>/\<close> returns the float nearest to it.
\<close>

record statistics =
  total_users :: int
  total_books :: int
  total_authors :: int
  books_per_user :: rat

definition get_statistics :: "database \<Rightarrow> User \<Rightarrow> http_exception + statistics" where
  "get_statistics db current_user =
     (if User_id current_user \<noteq> 1 then
        Inl \<lparr>status_code = 403, detail = ''Admin access required'', headers = []\<rparr>
      else
        let total_users = int (length (Users db));
            total_books = int (length (Books db));
            total_authors = int (length (Authors db))
        in Inr \<lparr>total_users = total_users, total_books = total_books,
                 total_authors = total_authors,
                 books_per_user =
                   (if total_users > 0 then of_int total_books / of_int total_users else 0)\<rparr>)"

section \<open>Credential hasher: properties\<close>

text \<open>
  C5. Verifying a plaintext against its own digest succeeds, for every plaintext; and for
  two distinct plaintexts, verifying the first against the digest of the second succeeds
  exactly when the two collide under SHA-256, so it returns false unless there is a
  collision.
\<close>

theorem verify_hash_password:
  "verify_password sha256 p (hash_password sha256 p) \<and>
   (p1 \<noteq> p2 \<longrightarrow>
      (verify_password sha256 p1 (hash_password sha256 p2) \<longleftrightarrow> collision sha256 p1 p2))"
  by (simp add: verify_password_def hash_password_def collision_def)

theorem verify_hash_password_witness:
  "verify_password (\<lambda>s. rev s) ''pw1'' (hash_password (\<lambda>s. rev s) ''pw1'') \<and>
   ''pw1'' \<noteq> ''pw2'' \<and>
   \<not> verify_password (\<lambda>s. rev s) ''pw1'' (hash_password (\<lambda>s. rev s) ''pw2'') \<and>
   \<not> collision (\<lambda>s. rev s) ''pw1'' ''pw2'' \<and>
   verify_password (\<lambda>s. take 2 s) ''pw1'' (hash_password (\<lambda>s. take 2 s) ''pw2'') \<and>
   collision (\<lambda>s. take 2 s) ''pw1'' ''pw2''"
  using verify_hash_password [of "\<lambda>s. rev s" "''pw1''" "''pw1''" "''pw2''"]
        verify_hash_password [of "\<lambda>s. take 2 s" "''pw1''" "''pw1''" "''pw2''"]
  by (simp add: collision_def)

section \<open>Rate limiter: properties\<close>




section \<open>Token codec: properties\<close>

lemma timegm_plus_seconds: "timegm (t + timedelta_seconds n) = timegm t + n"
  by (simp add: timegm_def timedelta_seconds_def)

lemma timegm_mono: "s \<le> t \<Longrightarrow> timegm s \<le> timegm t"
  by (simp add: timegm_def zdiv_mono1)

lemma ideal_codec_contract: "jwt_contract ideal_encode ideal_decode"
  by (simp add: jwt_contract_def ideal_encode_def ideal_decode_def)

lemma create_token_claims:
  "create_token enc T [''user_id'' \<mapsto> u] =
     enc [''user_id'' \<mapsto> u, ''exp'' \<mapsto> T + timedelta_minutes ACCESS_TOKEN_EXPIRE_MINUTES]
       SECRET_KEY ALGORITHM"
  by (simp add: create_token_def)

lemma verify_issued_ahead:
  assumes "jwt_contract enc dec"
    and "timegm now < timegm (T + timedelta_minutes ACCESS_TOKEN_EXPIRE_MINUTES)"
  shows "verify_token dec now (create_token enc T [''user_id'' \<mapsto> u]) =
           Inr [''user_id'' \<mapsto> u,
                ''exp'' \<mapsto> timegm (T + timedelta_minutes ACCESS_TOKEN_EXPIRE_MINUTES)]"
proof -
  let ?e = "T + timedelta_minutes ACCESS_TOKEN_EXPIRE_MINUTES"
  from assms have "dec now (enc [''user_id'' \<mapsto> u, ''exp'' \<mapsto> ?e] SECRET_KEY ALGORITHM)
                     SECRET_KEY [ALGORITHM] = Some [''user_id'' \<mapsto> u, ''exp'' \<mapsto> timegm ?e]"
    unfolding jwt_contract_def by blast
  then show ?thesis
    by (simp add: verify_token_def create_token_claims)
qed

lemma verify_issued_behind:
  assumes "jwt_contract enc dec"
    and "timegm (T + timedelta_minutes ACCESS_TOKEN_EXPIRE_MINUTES) < timegm now"
  shows "verify_token dec now (create_token enc T [''user_id'' \<mapsto> u]) =
           Inl \<lparr>status_code = 401, detail = ''Invalid token'',
                headers = [(''WWW-Authenticate'', ''Bearer'')]\<rparr>"
proof -
  let ?e = "T + timedelta_minutes ACCESS_TOKEN_EXPIRE_MINUTES"
  from assms have "dec now (enc [''user_id'' \<mapsto> u, ''exp'' \<mapsto> ?e] SECRET_KEY ALGORITHM)
                     SECRET_KEY [ALGORITHM] = None"
    unfolding jwt_contract_def by blast
  then show ?thesis
    by (simp add: verify_token_def create_token_claims)
qed

text \<open>
  C3. For every user id \<open>u\<close>: a token issued for \<open>u\<close> at \<open>T\<close>, verified at any instant from
  \<open>T\<close> on, \<open>T\<close> itself included, and up to one second before the 30 minutes have elapsed,
  verifies, and the claim set returned has \<open>user_id = u\<close>. The JWT library is assumed to
  meet \<open>jwt_contract\<close>.
\<close>

theorem issue_verify_roundtrip:
  assumes "jwt_contract enc dec"
    and "T \<le> now"
    and "now + timedelta_seconds 1 \<le> T + timedelta_minutes ACCESS_TOKEN_EXPIRE_MINUTES"
  shows "\<exists>payload. verify_token dec now (create_token enc T [''user_id'' \<mapsto> u]) = Inr payload \<and>
                   payload ''user_id'' = Some u"
proof -
  let ?e = "T + timedelta_minutes ACCESS_TOKEN_EXPIRE_MINUTES"
  from assms(3) have "timegm (now + timedelta_seconds 1) \<le> timegm ?e"
    by (rule timegm_mono)
  then have "timegm now < timegm ?e"
    by (simp add: timegm_plus_seconds)
  with assms(1) have "verify_token dec now (create_token enc T [''user_id'' \<mapsto> u]) =
                        Inr [''user_id'' \<mapsto> u, ''exp'' \<mapsto> timegm ?e]"
    by (rule verify_issued_ahead)
  then show ?thesis by simp
qed

theorem issue_verify_roundtrip_witness:
  "jwt_contract ideal_encode ideal_decode \<and>
   (1000000000::int) \<le> 1000000000 \<and>
   (1000000000::int) + timedelta_seconds 1 \<le>
     1000000000 + timedelta_minutes ACCESS_TOKEN_EXPIRE_MINUTES \<and>
   (\<exists>payload. verify_token ideal_decode 1000000000
                 (create_token ideal_encode 1000000000 [''user_id'' \<mapsto> 7]) = Inr payload \<and>
              payload ''user_id'' = Some 7)"
proof -
  have ttl: "(1000000000::int) + timedelta_seconds 1 \<le>
               1000000000 + timedelta_minutes ACCESS_TOKEN_EXPIRE_MINUTES"
    by (simp add: timedelta_minutes_def timedelta_seconds_def ACCESS_TOKEN_EXPIRE_MINUTES_def)
  from ttl ideal_codec_contract
    issue_verify_roundtrip [OF ideal_codec_contract order_refl ttl, of 7]
  show ?thesis by simp
qed

text \<open>
  C4. A token issued at \<open>T\<close> (for any user id) is refused with the 401 "Invalid token"
  error when verified one second after \<open>T\<close> plus the 30-minute TTL, and verifies one second
  before \<open>T\<close> plus the TTL. The JWT library is assumed to meet \<open>jwt_contract\<close>.
\<close>

theorem token_expiry_boundary:
  assumes "jwt_contract enc dec"
  shows "verify_token dec
             (T + timedelta_minutes ACCESS_TOKEN_EXPIRE_MINUTES + timedelta_seconds 1)
             (create_token enc T [''user_id'' \<mapsto> u]) =
           Inl \<lparr>status_code = 401, detail = ''Invalid token'',
                headers = [(''WWW-Authenticate'', ''Bearer'')]\<rparr> \<and>
         verify_token dec
             (T + timedelta_minutes ACCESS_TOKEN_EXPIRE_MINUTES - timedelta_seconds 1)
             (create_token enc T [''user_id'' \<mapsto> u]) =
           Inr [''user_id'' \<mapsto> u,
                ''exp'' \<mapsto> timegm (T + timedelta_minutes ACCESS_TOKEN_EXPIRE_MINUTES)]"
proof -
  let ?e = "T + timedelta_minutes ACCESS_TOKEN_EXPIRE_MINUTES"
  have late: "timegm ?e < timegm (?e + timedelta_seconds 1)"
    by (simp add: timegm_plus_seconds)
  have "timegm (?e - timedelta_seconds 1 + timedelta_seconds 1) =
          timegm (?e - timedelta_seconds 1) + 1"
    by (rule timegm_plus_seconds)
  then have early: "timegm (?e - timedelta_seconds 1) < timegm ?e"
    by simp
  from verify_issued_behind [OF assms late] verify_issued_ahead [OF assms early]
  show ?thesis by blast
qed

text \<open>
  Issued at 1000.25 s, so expiring at 2800.25 s; verified at 2801.25 s and at 2799.25 s.
\<close>

theorem token_expiry_boundary_witness:
  "jwt_contract ideal_encode ideal_decode \<and>
   verify_token ideal_decode 2801250000
       (create_token ideal_encode 1000250000 [''user_id'' \<mapsto> 7]) =
     Inl \<lparr>status_code = 401, detail = ''Invalid token'',
          headers = [(''WWW-Authenticate'', ''Bearer'')]\<rparr> \<and>
   verify_token ideal_decode 2799250000
       (create_token ideal_encode 1000250000 [''user_id'' \<mapsto> 7]) =
     Inr [''user_id'' \<mapsto> 7, ''exp'' \<mapsto> 2800]"
  using ideal_codec_contract token_expiry_boundary [OF ideal_codec_contract, of 1000250000 7]
  by (simp add: timedelta_minutes_def timedelta_seconds_def ACCESS_TOKEN_EXPIRE_MINUTES_def
      timegm_def)

section \<open>Access gate: properties\<close>

text \<open>
  C1. The access gate evaluated at a token that verifies (signed with the module's key,
  not expired) but names user id 7 in a database without such a user: the rejection is 401
  "Invalid user" with no headers, so without \<open>WWW-Authenticate: Bearer\<close>. At a token that
  does not verify, the rejection from \<open>verify_token\<close> is 401 "Invalid token" and does carry
  the header.
\<close>

theorem invalid_user_without_challenge:
  "get_current_user ideal_decode 1000 new_database
       (create_token ideal_encode 1000 [''user_id'' \<mapsto> 7]) =
     Inl \<lparr>status_code = 401, detail = ''Invalid user'', headers = []\<rparr> \<and>
   get_current_user ideal_decode 1000 new_database (Malformed ''garbage'') =
     Inl \<lparr>status_code = 401, detail = ''Invalid token'',
          headers = [(''WWW-Authenticate'', ''Bearer'')]\<rparr>"
  by (simp add: get_current_user_def verify_token_def create_token_def ideal_decode_def
      ideal_encode_def get_user_by_id_def new_database_def timedelta_minutes_def
      timedelta_seconds_def timegm_def ACCESS_TOKEN_EXPIRE_MINUTES_def)

section \<open>Registration and login: properties\<close>






section \<open>Administration: properties\<close>

text \<open>
  C9. Both admin handlers look at nothing but the id of the authenticated user. When the id
  is not 1, each answers 403 "Admin access required". When it is 1, \<open>get_all_users\<close>
  returns the id, email and creation time of every row of the users table and
  \<open>get_statistics\<close> returns the numbers of users, books and authors of the whole database
  with their quotient. Two users with the same id get the same answers, whatever their
  other attributes.
\<close>

theorem admin_by_id_only:
  "(User_id current_user \<noteq> 1 \<longrightarrow>
      get_all_users db current_user =
        Inl \<lparr>status_code = 403, detail = ''Admin access required'', headers = []\<rparr> \<and>
      get_statistics db current_user =
        Inl \<lparr>status_code = 403, detail = ''Admin access required'', headers = []\<rparr>) \<and>
   (User_id current_user = 1 \<longrightarrow>
      get_all_users db current_user =
        Inr (map (\<lambda>u. \<lparr>ud_id = User_id u, ud_email = User_email u,
                        ud_created_at = User_created_at u\<rparr>) (Users db)) \<and>
      get_statistics db current_user =
        Inr \<lparr>total_users = int (length (Users db)), total_books = int (length (Books db)),
             total_authors = int (length (Authors db)),
             books_per_user =
               (if Users db = [] then 0
                else of_nat (length (Books db)) / of_nat (length (Users db)))\<rparr>) \<and>
   (User_id other = User_id current_user \<longrightarrow>
      get_all_users db other = get_all_users db current_user \<and>
      get_statistics db other = get_statistics db current_user)"
  by (auto simp: get_all_users_def get_statistics_def user_to_dict_def Let_def)

theorem admin_by_id_only_witness:
  "(let alice = \<lparr>User_id = 1, User_email = ''a@x.com'', User_hashed_password = ''h1'',
                  User_created_at = 900\<rparr>;
        bob = \<lparr>User_id = 2, User_email = ''b@x.com'', User_hashed_password = ''h2'',
                User_created_at = 950\<rparr>;
        tolkien = \<lparr>Author_id = 1, Author_name = ''Tolkien'', Author_bio = None\<rparr>;
        hobbit = \<lparr>Book_id = 1, Book_title = ''The Hobbit'', Book_description = None,
                   Book_year = Some 1937, Book_author = tolkien, Book_owner = bob\<rparr>;
        db = new_database\<lparr>Users := [alice, bob], Authors := [tolkien], Books := [hobbit],
                           User_seq := 2\<rparr>
    in get_all_users db bob =
         Inl \<lparr>status_code = 403, detail = ''Admin access required'', headers = []\<rparr> \<and>
       get_statistics db bob =
         Inl \<lparr>status_code = 403, detail = ''Admin access required'', headers = []\<rparr> \<and>
       get_all_users db alice =
         Inr [\<lparr>ud_id = 1, ud_email = ''a@x.com'', ud_created_at = 900\<rparr>,
              \<lparr>ud_id = 2, ud_email = ''b@x.com'', ud_created_at = 950\<rparr>] \<and>
       get_statistics db alice =
         Inr \<lparr>total_users = 2, total_books = 1, total_authors = 1, books_per_user = 1 / 2\<rparr> \<and>
       get_all_users db (alice\<lparr>User_email := ''c@x.com''\<rparr>) = get_all_users db alice \<and>
       get_statistics db (alice\<lparr>User_email := ''c@x.com''\<rparr>) = get_statistics db alice)"
proof -
  let ?alice = "\<lparr>User_id = 1, User_email = ''a@x.com'', User_hashed_password = ''h1'',
                  User_created_at = 900\<rparr>"
  let ?bob = "\<lparr>User_id = 2, User_email = ''b@x.com'', User_hashed_password = ''h2'',
                User_created_at = 950\<rparr>"
  let ?tolkien = "\<lparr>Author_id = 1, Author_name = ''Tolkien'', Author_bio = None\<rparr>"
  let ?hobbit = "\<lparr>Book_id = 1, Book_title = ''The Hobbit'', Book_description = None,
                   Book_year = Some 1937, Book_author = ?tolkien, Book_owner = ?bob\<rparr>"
  let ?db = "new_database\<lparr>Users := [?alice, ?bob], Authors := [?tolkien], Books := [?hobbit],
                           User_seq := 2\<rparr>"
  from admin_by_id_only [of ?bob ?db ?bob]
       admin_by_id_only [of ?alice ?db "?alice\<lparr>User_email := ''c@x.com''\<rparr>"]
  show ?thesis by (simp add: Let_def)
qed

section \<open>Files: properties\<close>



end
